theory Spec2Isabelle
  imports Main
begin

section \<open>Values exchanged with the provider and with the tools\<close>

text \<open>
  The TypeScript sources type tool inputs and schemas as \<^verbatim>\<open>Record<string, unknown>\<close>.
  A record of that type is a finite map from property names to JSON values.
\<close>

datatype json =
    JNull
  | JBool bool
  | JNum int
  | JStr string
  | JArr "json list"
  | JObj "(string \<times> json) list"

type_synonym json_record = "string \<rightharpoonup> json"

text \<open>
  What a \<^verbatim>\<open>throw\<close> or a rejected promise carries. JavaScript lets any value be
  thrown. The sources only ever read \<^verbatim>\<open>message\<close> of what they catch, so the model
  tells apart: a value with a \<^verbatim>\<open>message\<close> property (an \<^verbatim>\<open>Error\<close>; the string is
  the message as a template literal prints it), the values \<^verbatim>\<open>undefined\<close> and
  \<^verbatim>\<open>null\<close>, and any other value, which has no \<^verbatim>\<open>message\<close>.
\<close>

datatype js_error =
    JsError string
  | JsUndefined
  | JsNull
  | JsOther

text \<open>
  \<^verbatim>\<open>`${(err as Error).message}`\<close>. The cast is unchecked. Reading a property of
  \<^verbatim>\<open>undefined\<close> or \<^verbatim>\<open>null\<close> raises a \<^verbatim>\<open>TypeError\<close> (the message is the
  engine's; V8's wording is used); a missing property reads as \<^verbatim>\<open>undefined\<close>, which
  the template literal prints as the word.
\<close>

fun message_text :: "js_error \<Rightarrow> js_error + string" where
  "message_text (JsError m) = Inr m"
| "message_text JsUndefined =
     Inl (JsError (''Cannot read properties of undefined (reading '' @ [CHR 0x27] @ ''message''
                   @ [CHR 0x27] @ '')''))"
| "message_text JsNull =
     Inl (JsError (''Cannot read properties of null (reading '' @ [CHR 0x27] @ ''message''
                   @ [CHR 0x27] @ '')''))"
| "message_text JsOther = Inr ''undefined''"

text \<open>
  An awaited promise either resolves with a value or rejects with an error, and the
  call behind it may read and change the world outside the program (file system,
  network, the provider). The world is the type parameter \<open>'w\<close>; a call takes the
  world and returns its outcome with the world it leaves.
\<close>

type_synonym ('a, 'w) promise = "'w \<Rightarrow> (js_error + 'a) \<times> 'w"

subsection \<open>types.ts\<close>

record 'w tool =
  name :: string
  description :: string
  inputSchema :: json_record
  execute :: "json_record \<Rightarrow> (string, 'w) promise"

record 'w agent_config =
  cfg_model :: string
  cfg_maxTokens :: int
  cfg_apiKey :: string
  cfg_tools :: "'w tool list"
  cfg_systemPrompt :: string

subsection \<open>The provider's wire types (Anthropic SDK)\<close>

text \<open>
  The loop reads \<^verbatim>\<open>block.input as Record<string, unknown>\<close>, an unchecked cast; the
  model gives the input that type from the start.
\<close>

datatype tool_use_block =
  ToolUseBlock (tu_id: string) (tu_name: string) (tu_input: json_record)

text \<open>
  A content block of a response is tagged by its \<^verbatim>\<open>type\<close>: \<^verbatim>\<open>"text"\<close>,
  \<^verbatim>\<open>"tool_use"\<close>, or another tag the loop does not look at.
\<close>

datatype content_block =
    is_text: TextBlock (tb_text: string)
  | is_tool_use: ToolUse (tu_block: tool_use_block)
  | OtherBlock string

datatype stop_reason = end_turn | max_tokens | stop_sequence | tool_use | pause_turn | refusal

record response =
  content :: "content_block list"
  stop_reason :: "stop_reason option"

text \<open>
  A tool-result block. The success branch of the loop leaves \<^verbatim>\<open>is_error\<close> out
  (\<open>None\<close>); the error branches set it to \<^verbatim>\<open>true\<close>.
\<close>

datatype tool_result_block =
  ToolResult (tool_use_id: string) (tr_content: string) (is_error: "bool option")

datatype role = user | assistant

datatype message_content =
    UserText string
  | Blocks "content_block list"
  | ToolResults "tool_result_block list"

datatype message_param = Message (role: role) (msg_content: message_content)

record anthropic_tool =
  at_name :: string
  at_description :: string
  input_schema :: json_record

record client =
  apiKey :: string

record request =
  rq_model :: string
  rq_max_tokens :: int
  rq_system :: string
  rq_messages :: "message_param list"
  rq_tools :: "anthropic_tool list"

text \<open>
  \<^verbatim>\<open>client.messages.create\<close> is the network call to the provider. It is not part of
  the repository, so it is a parameter of the model.
\<close>

type_synonym 'w provider = "client \<Rightarrow> request \<Rightarrow> (response, 'w) promise"

section \<open>llm.ts\<close>

definition createClient :: "string \<Rightarrow> client" where
  "createClient key = \<lparr> apiKey = key \<rparr>"

text \<open>
  \<^verbatim>\<open>{ type: "object", ...t.inputSchema }\<close>: the spread is written after the
  \<^verbatim>\<open>type\<close> key, so a \<^verbatim>\<open>type\<close> key of the tool's schema wins.
\<close>

definition toAnthropicTools :: "'w tool list \<Rightarrow> anthropic_tool list" where
  "toAnthropicTools tools =
     map (\<lambda>t. \<lparr> at_name = name t,
                at_description = description t,
                input_schema = [''type'' \<mapsto> JStr ''object''] ++ inputSchema t \<rparr>) tools"

definition chat ::
  "'w provider \<Rightarrow> client \<Rightarrow> string \<Rightarrow> int \<Rightarrow> string \<Rightarrow> message_param list \<Rightarrow>
   anthropic_tool list \<Rightarrow> (response, 'w) promise" where
  "chat create c model maxTokens systemPrompt messages tools =
     create c \<lparr> rq_model = model, rq_max_tokens = maxTokens, rq_system = systemPrompt,
                rq_messages = messages, rq_tools = tools \<rparr>"

section \<open>agent.ts\<close>

record 'w agent =
  client :: client
  model :: string
  maxTokens :: int
  systemPrompt :: string
  messages :: "message_param list"
  toolMap :: "string \<rightharpoonup> 'w tool"
  anthropicTools :: "anthropic_tool list"

text \<open>
  \<^verbatim>\<open>new Map(entries)\<close> inserts the entries from first to last; a later entry with
  a key already present replaces the earlier value.
\<close>

definition new_Map :: "('k \<times> 'v) list \<Rightarrow> ('k \<rightharpoonup> 'v)" where
  "new_Map entries = fold (\<lambda>(k, v) m. m(k \<mapsto> v)) entries Map.empty"

text \<open>
  The constructor. A JavaScript constructor may throw, so the model returns a sum;
  the source has no \<^verbatim>\<open>throw\<close> and no check, so every branch is \<open>Inr\<close>.
\<close>

definition Agent_constructor :: "'w agent_config \<Rightarrow> js_error + 'w agent" where
  "Agent_constructor config =
     Inr \<lparr> client = createClient (cfg_apiKey config),
           model = cfg_model config,
           maxTokens = cfg_maxTokens config,
           systemPrompt = cfg_systemPrompt config,
           messages = [],
           toolMap = new_Map (map (\<lambda>t. (name t, t)) (cfg_tools config)),
           anthropicTools = toAnthropicTools (cfg_tools config) \<rparr>"

text \<open>\<^verbatim>\<open>Array.prototype.join\<close> on strings.\<close>

fun join :: "string \<Rightarrow> string list \<Rightarrow> string" where
  "join sep [] = []"
| "join sep [x] = x"
| "join sep (x # y # ys) = x @ sep @ join sep (y # ys)"

text \<open>
  \<^verbatim>\<open>response.content.filter(block => block.type === "text").map(block => block.text)\<close>
\<close>

definition texts :: "content_block list \<Rightarrow> string list" where
  "texts blocks = map tb_text (filter is_text blocks)"

definition answer :: "content_block list \<Rightarrow> string" where
  "answer blocks = join [CHR 0x0A] (texts blocks)"

text \<open>\<^verbatim>\<open>response.content.filter(block => block.type === "tool_use")\<close>\<close>

definition toolUseBlocks :: "content_block list \<Rightarrow> tool_use_block list" where
  "toolUseBlocks blocks = map tu_block (filter is_tool_use blocks)"

definition unknown_tool_result :: "tool_use_block \<Rightarrow> tool_result_block" where
  \<open>unknown_tool_result block =
     ToolResult (tu_id block) (''Error: unknown tool "'' @ tu_name block @ ''"'') (Some True)\<close>

definition ok_tool_result :: "tool_use_block \<Rightarrow> string \<Rightarrow> tool_result_block" where
  "ok_tool_result block result = ToolResult (tu_id block) result None"

definition failed_tool_result :: "tool_use_block \<Rightarrow> string \<Rightarrow> tool_result_block" where
  \<open>failed_tool_result block msg =
     ToolResult (tu_id block)
       (''Error executing tool "'' @ tu_name block @ ''": '' @ msg) (Some True)\<close>

subsection \<open>Agent.run, revision with the per-tool catch (src/unnamed/part_006)\<close>

text \<open>
  The \<^verbatim>\<open>for\<close> loop over \<^verbatim>\<open>toolUseBlocks\<close>; \<open>toolResults\<close> is the array the
  loop pushes to. A rejected \<^verbatim>\<open>execute\<close> is caught and becomes an error entry.
  The \<^verbatim>\<open>catch\<close> block itself reads \<^verbatim>\<open>(err as Error).message\<close>: when that read
  raises, the \<^verbatim>\<open>TypeError\<close> leaves the loop and \<^verbatim>\<open>run\<close>.
\<close>

fun dispatch_part_006 ::
  "(string \<rightharpoonup> 'w tool) \<Rightarrow> tool_use_block list \<Rightarrow> tool_result_block list \<Rightarrow> 'w \<Rightarrow>
   (js_error + tool_result_block list) \<times> 'w" where
  "dispatch_part_006 tm [] toolResults w = (Inr toolResults, w)"
| "dispatch_part_006 tm (block # blocks) toolResults w =
     (case tm (tu_name block) of
        None \<Rightarrow> dispatch_part_006 tm blocks (toolResults @ [unknown_tool_result block]) w
      | Some t \<Rightarrow>
          (case execute t (tu_input block) w of
             (Inr result, w') \<Rightarrow>
               dispatch_part_006 tm blocks (toolResults @ [ok_tool_result block result]) w'
           | (Inl err, w') \<Rightarrow>
               (case message_text err of
                  Inr msg \<Rightarrow>
                    dispatch_part_006 tm blocks (toolResults @ [failed_tool_result block msg]) w'
                | Inl type_error \<Rightarrow> (Inl type_error, w'))))"

text \<open>
  The \<^verbatim>\<open>while (true)\<close> loop. It has no bound, so the model is a partial function:
  \<open>None\<close> is a loop that never returns. A returned triple holds the outcome of
  \<^verbatim>\<open>run\<close> (the answer, or the error that escapes), the agent and the world.
\<close>

partial_function (option) loop_part_006 ::
  "'w provider \<Rightarrow> 'w agent \<Rightarrow> 'w \<Rightarrow> ((js_error + string) \<times> 'w agent \<times> 'w) option" where
  "loop_part_006 create a w =
     (case chat create (client a) (model a) (maxTokens a) (systemPrompt a) (messages a)
             (anthropicTools a) w of
        (Inl err, w1) \<Rightarrow> Some (Inl err, a, w1)
      | (Inr response, w1) \<Rightarrow>
          (let a1 = a\<lparr>messages := messages a @ [Message assistant (Blocks (content response))]\<rparr>
           in if toolUseBlocks (content response) = []
              then Some (Inr (answer (content response)), a1, w1)
              else (case dispatch_part_006 (toolMap a1) (toolUseBlocks (content response)) [] w1 of
                      (Inl err, w2) \<Rightarrow> Some (Inl err, a1, w2)
                    | (Inr toolResults, w2) \<Rightarrow>
                        loop_part_006 create
                          (a1\<lparr>messages := messages a1 @ [Message user (ToolResults toolResults)]\<rparr>)
                          w2)))"

definition run_part_006 ::
  "'w provider \<Rightarrow> 'w agent \<Rightarrow> string \<Rightarrow> 'w \<Rightarrow> ((js_error + string) \<times> 'w agent \<times> 'w) option" where
  "run_part_006 create a userMessage w =
     loop_part_006 create (a\<lparr>messages := messages a @ [Message user (UserText userMessage)]\<rparr>) w"

subsection \<open>Agent.run, revision that tests the stop reason (src/src/agent.ts)\<close>

text \<open>
  The \<^verbatim>\<open>for\<close> loop over \<^verbatim>\<open>response.content\<close>, skipping the blocks that are not
  \<^verbatim>\<open>tool_use\<close>. There is no \<^verbatim>\<open>try\<close> around \<^verbatim>\<open>execute\<close>: a rejection leaves
  the loop and \<^verbatim>\<open>run\<close>.
\<close>

fun dispatch_agent_ts ::
  "(string \<rightharpoonup> 'w tool) \<Rightarrow> content_block list \<Rightarrow> tool_result_block list \<Rightarrow> 'w \<Rightarrow>
   (js_error + tool_result_block list) \<times> 'w" where
  "dispatch_agent_ts tm [] toolResults w = (Inr toolResults, w)"
| "dispatch_agent_ts tm (ToolUse block # blocks) toolResults w =
     (case tm (tu_name block) of
        None \<Rightarrow> dispatch_agent_ts tm blocks (toolResults @ [unknown_tool_result block]) w
      | Some t \<Rightarrow>
          (case execute t (tu_input block) w of
             (Inr result, w') \<Rightarrow>
               dispatch_agent_ts tm blocks (toolResults @ [ok_tool_result block result]) w'
           | (Inl err, w') \<Rightarrow> (Inl err, w')))"
| "dispatch_agent_ts tm (_ # blocks) toolResults w = dispatch_agent_ts tm blocks toolResults w"

partial_function (option) loop_agent_ts ::
  "'w provider \<Rightarrow> 'w agent \<Rightarrow> 'w \<Rightarrow> ((js_error + string) \<times> 'w agent \<times> 'w) option" where
  "loop_agent_ts create a w =
     (case chat create (client a) (model a) (maxTokens a) (systemPrompt a) (messages a)
             (anthropicTools a) w of
        (Inl err, w1) \<Rightarrow> Some (Inl err, a, w1)
      | (Inr response, w1) \<Rightarrow>
          (let a1 = a\<lparr>messages := messages a @ [Message assistant (Blocks (content response))]\<rparr>
           in if stop_reason response \<noteq> Some tool_use
              then Some (Inr (answer (content response)), a1, w1)
              else (case dispatch_agent_ts (toolMap a1) (content response) [] w1 of
                      (Inl err, w2) \<Rightarrow> Some (Inl err, a1, w2)
                    | (Inr toolResults, w2) \<Rightarrow>
                        loop_agent_ts create
                          (a1\<lparr>messages := messages a1 @ [Message user (ToolResults toolResults)]\<rparr>)
                          w2)))"

definition run_agent_ts ::
  "'w provider \<Rightarrow> 'w agent \<Rightarrow> string \<Rightarrow> 'w \<Rightarrow> ((js_error + string) \<times> 'w agent \<times> 'w) option" where
  "run_agent_ts create a userMessage w =
     loop_agent_ts create (a\<lparr>messages := messages a @ [Message user (UserText userMessage)]\<rparr>) w"

subsection \<open>Finished rounds in a transcript\<close>

text \<open>
  The turns one call of \<^verbatim>\<open>run\<close> appends after the user's message when every tool
  call is answered: each assistant turn with tool-call segments is followed by a
  tool-result turn that holds one entry per segment, with the same call identifiers
  in the same order, and the last turn is an assistant turn without tool-call
  segments.
\<close>

fun answered_rounds :: "message_param list \<Rightarrow> bool" where
  "answered_rounds [Message assistant (Blocks blocks)] = (toolUseBlocks blocks = [])"
| "answered_rounds (Message assistant (Blocks blocks) # Message user (ToolResults rs) # later) =
     (toolUseBlocks blocks \<noteq> []
      \<and> map tool_use_id rs = map tu_id (toolUseBlocks blocks)
      \<and> answered_rounds later)"
| "answered_rounds _ = False"

section \<open>tools/bash.ts\<close>

text \<open>
  \<^verbatim>\<open>execFile(file, args, options, callback)\<close> belongs to Node. The model takes it as
  a parameter that either throws at once (\<open>Inl\<close>: Node checks the arguments before it
  starts anything, and refuses a string that holds a NUL character), or runs the
  command in the world and hands the three arguments of its callback back (\<open>Inr\<close>):
  the error (absent on success), stdout and stderr. The error's \<^verbatim>\<open>code\<close> is the exit
  status, a string such as \<^verbatim>\<open>ENOENT\<close>, or absent (a kill on timeout).
\<close>

datatype error_code = CodeNumber int | CodeString string

record exec_error =
  code :: "error_code option"

record exec_outcome =
  error :: "exec_error option"
  stdout :: string
  stderr :: string

type_synonym 'w exec_file =
  "string \<Rightarrow> json option list \<Rightarrow> int \<Rightarrow> 'w \<Rightarrow> (js_error + exec_outcome) \<times> 'w"

text \<open>
  A template literal prints a number in decimal. Exit statuses are integers, so the
  model prints integers: the digits of the absolute value, most significant first,
  after a minus sign when the number is negative. \<open>digits\<close> asks \<open>digit\<close> for
  values below ten only.
\<close>

definition digit :: "nat \<Rightarrow> char" where
  "digit d = ''0123456789'' ! d"

function digits :: "nat \<Rightarrow> string" where
  "digits n = (if n div 10 = 0 then [digit n] else digits (n div 10) @ [digit (n mod 10)])"
  by pat_completeness auto

termination
  by (relation "measure id") auto

declare digits.simps [simp del]

definition number_text :: "int \<Rightarrow> string" where
  "number_text i = (if 0 \<le> i then digits (nat i) else CHR ''-'' # digits (nat (- i)))"

text \<open>\<^verbatim>\<open>`${error.code ?? 1}`\<close>\<close>

definition code_text :: "error_code option \<Rightarrow> string" where
  "code_text c =
     (case c of
        None \<Rightarrow> number_text 1
      | Some (CodeNumber n) \<Rightarrow> number_text n
      | Some (CodeString s) \<Rightarrow> s)"

text \<open>
  \<^verbatim>\<open>String.prototype.trimEnd\<close> removes trailing white space and line terminators.
  A \<open>char\<close> is one byte, so of JavaScript's white space the model has the code
  points below 256: tab, line feed, vertical tab, form feed, carriage return, space
  and the no-break space.
\<close>

definition is_white_space :: "char \<Rightarrow> bool" where
  "is_white_space c = (of_char c \<in> {9, 10, 11, 12, 13, 32, 160 :: nat})"

definition trimEnd :: "string \<Rightarrow> string" where
  "trimEnd s = rev (dropWhile is_white_space (rev s))"

text \<open>The callback given to \<^verbatim>\<open>execFile\<close>; its value is what \<^verbatim>\<open>resolve\<close> receives.\<close>

definition execFile_callback :: "exec_error option \<Rightarrow> string \<Rightarrow> string \<Rightarrow> string" where
  "execFile_callback err out errout =
     (case err of
        Some e \<Rightarrow> out @ errout @ [CHR 0x0A] @ ''[exit code '' @ code_text (code e) @ '']''
      | None \<Rightarrow> trimEnd (out @ errout))"

text \<open>
  \<^verbatim>\<open>bashTool.execute\<close>. The promise's executor passes only \<^verbatim>\<open>resolve\<close>, and the
  callback calls it on both branches. \<^verbatim>\<open>execFile\<close> is called inside the executor, so
  an error it throws at once rejects the promise. \<open>isWindows\<close> is
  \<^verbatim>\<open>process.platform === "win32"\<close>; the first revision of the tool (src/unnamed/part_000)
  is the branch \<open>isWindows = False\<close>.
\<close>

definition bashTool_execute :: "bool \<Rightarrow> 'w exec_file \<Rightarrow> json_record \<Rightarrow> (string, 'w) promise" where
  "bashTool_execute isWindows execFile input w =
     (let command = input ''command'';
          shell = (if isWindows then ''cmd.exe'' else ''bash'');
          shellArgs = (if isWindows then [Some (JStr ''/c''), command]
                       else [Some (JStr ''-c''), command])
      in case execFile shell shellArgs 30000 w of
           (Inl thrown, w') \<Rightarrow> (Inl thrown, w')
         | (Inr outcome, w') \<Rightarrow>
             (Inr (execFile_callback (error outcome) (stdout outcome) (stderr outcome)), w'))"

definition bashTool :: "bool \<Rightarrow> 'w exec_file \<Rightarrow> 'w tool" where
  "bashTool isWindows execFile =
     \<lparr> name = ''bash'',
       description = ''Execute a bash command and return its output (stdout + stderr).'',
       inputSchema =
         [''type'' \<mapsto> JStr ''object'',
          ''properties'' \<mapsto>
            JObj [(''command'',
                   JObj [(''type'', JStr ''string''),
                         (''description'', JStr ''The bash command to execute'')])],
          ''required'' \<mapsto> JArr [JStr ''command'']],
       execute = bashTool_execute isWindows execFile \<rparr>"

section \<open>tools/gmail/parser.ts\<close>

text \<open>
  A Gmail message part, with the three properties \<^verbatim>\<open>extractText\<close> reads:
  \<^verbatim>\<open>mimeType\<close>, \<^verbatim>\<open>body?.data\<close> and \<^verbatim>\<open>parts\<close>. The function treats absent parts
  like an empty array, so \<open>parts\<close> is a list.
\<close>

datatype message_part =
  MessagePart (mimeType: "string option") (body_data: "string option") (parts: "message_part list")

text \<open>A string property is truthy when it is present and not empty.\<close>

fun truthy :: "string option \<Rightarrow> bool" where
  "truthy None = False"
| "truthy (Some s) = (s \<noteq> [])"

definition is_html_with_data :: "message_part \<Rightarrow> bool" where
  "is_html_with_data part = (mimeType part = Some ''text/html'' \<and> truthy (body_data part))"

definition is_plain_with_data :: "message_part \<Rightarrow> bool" where
  "is_plain_with_data part = (mimeType part = Some ''text/plain'' \<and> truthy (body_data part))"

text \<open>\<^verbatim>\<open>part.mimeType?.startsWith("multipart/")\<close>\<close>

definition is_multipart :: "message_part \<Rightarrow> bool" where
  "is_multipart part =
     (case mimeType part of None \<Rightarrow> False | Some m \<Rightarrow> take 10 m = ''multipart/'')"

definition data_of :: "message_part \<Rightarrow> string" where
  "data_of part = (case body_data part of None \<Rightarrow> [] | Some d \<Rightarrow> d)"

text \<open>
  \<^verbatim>\<open>decodeBody\<close> (Node's \<^verbatim>\<open>Buffer\<close>) and \<^verbatim>\<open>htmlToText\<close> (cheerio) wrap library
  calls; they are parameters. A loop that returns at its first hit is \<open>find\<close> on the
  list it walks.
\<close>

function extractText :: "(string \<Rightarrow> string) \<Rightarrow> (string \<Rightarrow> string) \<Rightarrow> message_part \<Rightarrow> string" where
  "extractText decodeBody htmlToText (MessagePart mime data ps) =
     (if truthy data \<and> mime = Some ''text/plain'' then decodeBody (data_of (MessagePart mime data ps))
      else if truthy data \<and> mime = Some ''text/html''
        then htmlToText (decodeBody (data_of (MessagePart mime data ps)))
      else if ps = [] then []
      else
        (let sections = filter (\<lambda>t. t \<noteq> []) (map (extractText decodeBody htmlToText) ps)
         in if mime = Some ''multipart/alternative'' then
              (case find is_html_with_data (rev ps) of
                 Some part \<Rightarrow> htmlToText (decodeBody (data_of part))
               | None \<Rightarrow>
                   (case find (\<lambda>t. t \<noteq> [])
                           (map (extractText decodeBody htmlToText)
                              (filter is_multipart (rev ps))) of
                      Some t \<Rightarrow> t
                    | None \<Rightarrow>
                        (case find is_plain_with_data ps of
                           Some part \<Rightarrow> decodeBody (data_of part)
                         | None \<Rightarrow> join [CHR 0x0A, CHR 0x0A] sections)))
            else join [CHR 0x0A, CHR 0x0A] sections))"
  by pat_completeness auto

termination
proof (relation "measure (\<lambda>(decodeBody, htmlToText, payload). size payload)")
  show "wf (measure (\<lambda>(decodeBody, htmlToText, payload). size payload))"
    by simp
next
  fix decodeBody htmlToText :: "string \<Rightarrow> string" and mime data ps and part :: message_part
  assume "part \<in> set ps"
  then have "size part < Suc (size_list size ps)"
    by (induction ps) auto
  then show "((decodeBody, htmlToText, part), (decodeBody, htmlToText, MessagePart mime data ps))
      \<in> measure (\<lambda>(decodeBody, htmlToText, payload). size payload)"
    by simp
next
  fix decodeBody htmlToText :: "string \<Rightarrow> string" and mime data ps and part :: message_part
  assume "part \<in> set (filter is_multipart (rev ps))"
  then have "part \<in> set ps"
    by simp
  then have "size part < Suc (size_list size ps)"
    by (induction ps) auto
  then show "((decodeBody, htmlToText, part), (decodeBody, htmlToText, MessagePart mime data ps))
      \<in> measure (\<lambda>(decodeBody, htmlToText, payload). size payload)"
    by simp
qed

text \<open>
  A part holds readable text when it is itself a leaf with data of type
  \<^verbatim>\<open>text/plain\<close> or \<^verbatim>\<open>text/html\<close>, or one of its parts holds readable text.
\<close>

fun has_text_leaf :: "message_part \<Rightarrow> bool" where
  "has_text_leaf (MessagePart mime data ps) =
     ((truthy data \<and> (mime = Some ''text/plain'' \<or> mime = Some ''text/html''))
      \<or> (\<exists>part \<in> set ps. has_text_leaf part))"

section \<open>Scenarios\<close>

text \<open>The provider call \<^verbatim>\<open>run\<close> makes from the agent \<open>a\<close>.\<close>

abbreviation provider_call :: "'w provider \<Rightarrow> 'w agent \<Rightarrow> (response, 'w) promise" where
  "provider_call create a \<equiv>
     chat create (client a) (model a) (maxTokens a) (systemPrompt a) (messages a) (anthropicTools a)"

text \<open>
  A stubbed provider that answers from a fixed script. A transcript of \<open>n\<close> finished
  rounds holds \<open>2 * n + 1\<close> turns, so the call after them takes entry \<open>n\<close>.
\<close>

definition scripted :: "(js_error + response) list \<Rightarrow> 'w provider" where
  "scripted script c rq w =
     (case drop (length (rq_messages rq) div 2) script of
        [] \<Rightarrow> (Inl (JsError ''script exhausted''), w)
      | r # _ \<Rightarrow> (r, w))"

text \<open>
  Stub tools over a world that is the log of executor invocations: each executor
  appends its tool's name, then resolves with a fixed reply or rejects.
\<close>

definition logging_tool :: "string \<Rightarrow> string \<Rightarrow> string list tool" where
  "logging_tool n reply =
     \<lparr> name = n, description = ''replies'', inputSchema = [''type'' \<mapsto> JStr ''object''],
       execute = (\<lambda>input w. (Inr reply, w @ [n])) \<rparr>"

definition throwing_tool :: "string \<Rightarrow> string \<Rightarrow> string list tool" where
  "throwing_tool n msg =
     \<lparr> name = n, description = ''throws'', inputSchema = [''type'' \<mapsto> JStr ''object''],
       execute = (\<lambda>input w. (Inl (JsError msg), w @ [n])) \<rparr>"

definition stub_config :: "'w tool list \<Rightarrow> 'w agent_config" where
  "stub_config ts =
     \<lparr> cfg_model = ''m'', cfg_maxTokens = 4096, cfg_apiKey = ''key'', cfg_tools = ts,
       cfg_systemPrompt = ''sys'' \<rparr>"

text \<open>The agent the constructor builds from \<open>stub_config ts\<close>.\<close>

definition agent_of :: "'w tool list \<Rightarrow> 'w agent" where
  "agent_of ts =
     \<lparr> client = createClient ''key'', model = ''m'', maxTokens = 4096, systemPrompt = ''sys'',
       messages = [], toolMap = new_Map (map (\<lambda>t. (name t, t)) ts),
       anthropicTools = toAnthropicTools ts \<rparr>"

text \<open>The agent after the user's message has been pushed.\<close>

definition asked :: "'w tool list \<Rightarrow> string \<Rightarrow> 'w agent" where
  "asked ts userMessage = (agent_of ts)\<lparr>messages := [Message user (UserText userMessage)]\<rparr>"

definition call_t1 :: tool_use_block where
  "call_t1 = ToolUseBlock ''a'' ''t1'' Map.empty"

definition call_t2 :: tool_use_block where
  "call_t2 = ToolUseBlock ''b'' ''t2'' Map.empty"

definition call_read_file :: tool_use_block where
  "call_read_file = ToolUseBlock ''c'' ''read_file'' [''path'' \<mapsto> JStr ''x.txt'']"

definition resp_two_calls :: response where
  "resp_two_calls =
     \<lparr> content = [TextBlock ''Working.'', ToolUse call_t1, ToolUse call_t2],
       stop_reason = Some tool_use \<rparr>"

definition resp_read_file :: response where
  "resp_read_file = \<lparr> content = [ToolUse call_read_file], stop_reason = Some tool_use \<rparr>"

definition resp_not_found :: response where
  "resp_not_found =
     \<lparr> content = [TextBlock ''I could not find that tool.''], stop_reason = Some end_turn \<rparr>"

definition resp_cut_short :: response where
  "resp_cut_short =
     \<lparr> content = [TextBlock ''Looking.'', ToolUse call_t1], stop_reason = Some max_tokens \<rparr>"

definition resp_one_call :: response where
  "resp_one_call = \<lparr> content = [ToolUse call_t1], stop_reason = Some tool_use \<rparr>"

definition resp_done :: response where
  "resp_done = \<lparr> content = [TextBlock ''done''], stop_reason = Some end_turn \<rparr>"

definition resp_empty :: response where
  "resp_empty = \<lparr> content = [], stop_reason = Some end_turn \<rparr>"

definition resp_answer :: response where
  "resp_answer =
     \<lparr> content = [TextBlock ''one'', OtherBlock ''thinking'', TextBlock ''two''],
       stop_reason = Some end_turn \<rparr>"

definition two_tools :: "string list tool list" where
  "two_tools = [logging_tool ''t1'' ''r1'', logging_tool ''t2'' ''r2'']"

text \<open>Two tools under one name, and a tool whose schema has no \<^verbatim>\<open>type\<close> key.\<close>

definition duplicate_tools :: "string list tool list" where
  "duplicate_tools =
     [\<lparr> name = ''bash'', description = ''first'', inputSchema = Map.empty,
        execute = (\<lambda>input w. (Inr ''one'', w)) \<rparr>,
      \<lparr> name = ''bash'', description = ''second'', inputSchema = Map.empty,
        execute = (\<lambda>input w. (Inr ''two'', w)) \<rparr>]"

definition bare_tool :: "string list tool" where
  "bare_tool =
     \<lparr> name = ''noop'', description = ''does nothing'', inputSchema = Map.empty,
       execute = (\<lambda>input w. (Inr [], w)) \<rparr>"

text \<open>
  A stub \<^verbatim>\<open>execFile\<close> with Node's check of the arguments: an argument that is a
  string with a NUL character is refused at once, before anything runs. Otherwise
  the stub logs the file it was asked to run and hands a fixed outcome to the callback.
\<close>

definition has_nul :: "json option \<Rightarrow> bool" where
  "has_nul arg = (case arg of Some (JStr s) \<Rightarrow> CHR 0x00 \<in> set s | _ \<Rightarrow> False)"

definition exec_stub :: "exec_outcome \<Rightarrow> string list exec_file" where
  "exec_stub outcome file args timeout w =
     (if list_ex has_nul args
      then (Inl (JsError ''The argument must be a string without null bytes''), w)
      else (Inr outcome, w @ [file]))"

text \<open>A tool whose executor rejects with a given value, after logging its name.\<close>

definition rejecting_tool :: "string \<Rightarrow> js_error \<Rightarrow> string list tool" where
  "rejecting_tool n thrown =
     \<lparr> name = n, description = ''rejects'', inputSchema = [''type'' \<mapsto> JStr ''object''],
       execute = (\<lambda>input w. (Inl thrown, w @ [n])) \<rparr>"

definition resp_unknown_then_call :: response where
  "resp_unknown_then_call =
     \<lparr> content = [ToolUse call_read_file, ToolUse call_t1], stop_reason = Some tool_use \<rparr>"

definition resp_unknown_cut_short :: response where
  "resp_unknown_cut_short =
     \<lparr> content = [ToolUse call_read_file], stop_reason = Some max_tokens \<rparr>"

definition resp_two_calls_cut_short :: response where
  "resp_two_calls_cut_short =
     \<lparr> content = [ToolUse call_t1, ToolUse call_t2], stop_reason = Some max_tokens \<rparr>"

text \<open>
  A message with an attachment, an empty plain-text part and an HTML part without
  data: no part holds readable text.
\<close>

definition attachment_only :: message_part where
  "attachment_only =
     MessagePart (Some ''multipart/mixed'') None
       [MessagePart (Some ''image/png'') (Some ''iVBORw0KGgo'') [],
        MessagePart (Some ''multipart/alternative'') None
          [MessagePart (Some ''text/plain'') (Some []) [],
           MessagePart (Some ''text/html'') None []]]"

section \<open>One round of the loop\<close>

lemma agent_of_constructed: "Agent_constructor (stub_config ts) = Inr (agent_of ts)"
  by (simp add: Agent_constructor_def stub_config_def agent_of_def)

lemma toolUseBlocks_simps [simp]:
  "toolUseBlocks [] = []"
  "toolUseBlocks (ToolUse u # bs) = u # toolUseBlocks bs"
  "toolUseBlocks (TextBlock s # bs) = toolUseBlocks bs"
  "toolUseBlocks (OtherBlock k # bs) = toolUseBlocks bs"
  by (simp_all add: toolUseBlocks_def)

lemma texts_simps [simp]:
  "texts [] = []"
  "texts (TextBlock s # bs) = s # texts bs"
  "texts (ToolUse u # bs) = texts bs"
  "texts (OtherBlock k # bs) = texts bs"
  by (simp_all add: texts_def)

lemma new_Map_single [simp]: "new_Map [(k, v)] = [k \<mapsto> v]"
  by (simp add: new_Map_def)

lemma loop_part_006_chat_fails:
  "provider_call create a w = (Inl err, w1) \<Longrightarrow> loop_part_006 create a w = Some (Inl err, a, w1)"
  by (subst loop_part_006.simps) simp

lemma loop_part_006_returns:
  "provider_call create a w = (Inr response, w1) \<Longrightarrow> toolUseBlocks (content response) = [] \<Longrightarrow>
   loop_part_006 create a w =
     Some (Inr (answer (content response)),
           a\<lparr>messages := messages a @ [Message assistant (Blocks (content response))]\<rparr>, w1)"
  by (subst loop_part_006.simps) simp

lemma loop_part_006_continues:
  "provider_call create a w = (Inr response, w1) \<Longrightarrow> toolUseBlocks (content response) \<noteq> [] \<Longrightarrow>
   dispatch_part_006 (toolMap a) (toolUseBlocks (content response)) [] w1 = (Inr toolResults, w2) \<Longrightarrow>
   loop_part_006 create a w =
     loop_part_006 create
       (a\<lparr>messages := messages a @ [Message assistant (Blocks (content response)),
                                      Message user (ToolResults toolResults)]\<rparr>) w2"
  by (subst loop_part_006.simps) simp

lemma loop_part_006_aborts:
  "provider_call create a w = (Inr response, w1) \<Longrightarrow> toolUseBlocks (content response) \<noteq> [] \<Longrightarrow>
   dispatch_part_006 (toolMap a) (toolUseBlocks (content response)) [] w1 = (Inl err, w2) \<Longrightarrow>
   loop_part_006 create a w =
     Some (Inl err,
           a\<lparr>messages := messages a @ [Message assistant (Blocks (content response))]\<rparr>, w2)"
  by (subst loop_part_006.simps) simp

lemma loop_agent_ts_chat_fails:
  "provider_call create a w = (Inl err, w1) \<Longrightarrow> loop_agent_ts create a w = Some (Inl err, a, w1)"
  by (subst loop_agent_ts.simps) simp

lemma loop_agent_ts_returns:
  "provider_call create a w = (Inr response, w1) \<Longrightarrow> stop_reason response \<noteq> Some tool_use \<Longrightarrow>
   loop_agent_ts create a w =
     Some (Inr (answer (content response)),
           a\<lparr>messages := messages a @ [Message assistant (Blocks (content response))]\<rparr>, w1)"
  by (subst loop_agent_ts.simps) simp

lemma loop_agent_ts_continues:
  "provider_call create a w = (Inr response, w1) \<Longrightarrow> stop_reason response = Some tool_use \<Longrightarrow>
   dispatch_agent_ts (toolMap a) (content response) [] w1 = (Inr toolResults, w2) \<Longrightarrow>
   loop_agent_ts create a w =
     loop_agent_ts create
       (a\<lparr>messages := messages a @ [Message assistant (Blocks (content response)),
                                      Message user (ToolResults toolResults)]\<rparr>) w2"
  by (subst loop_agent_ts.simps) simp

lemma loop_agent_ts_aborts:
  "provider_call create a w = (Inr response, w1) \<Longrightarrow> stop_reason response = Some tool_use \<Longrightarrow>
   dispatch_agent_ts (toolMap a) (content response) [] w1 = (Inl err, w2) \<Longrightarrow>
   loop_agent_ts create a w =
     Some (Inl err,
           a\<lparr>messages := messages a @ [Message assistant (Blocks (content response))]\<rparr>, w2)"
  by (subst loop_agent_ts.simps) simp

lemma two_tools_map:
  "toolMap (asked two_tools msg) ''t1'' = Some (logging_tool ''t1'' ''r1'')"
  "toolMap (asked two_tools msg) ''t2'' = Some (logging_tool ''t2'' ''r2'')"
  "toolMap (asked two_tools msg) ''read_file'' = None"
  by (simp_all add: asked_def agent_of_def two_tools_def new_Map_def logging_tool_def)

section \<open>Tool dispatch\<close>

text \<open>
  Dispatching a list of segments is dispatching its front, then its back from the
  results and the world the front left: the segments run one after another.
\<close>

lemma dispatch_part_006_append:
  "dispatch_part_006 tm (xs @ ys) acc w =
     (case dispatch_part_006 tm xs acc w of
        (Inl err, w1) \<Rightarrow> (Inl err, w1)
      | (Inr r, w1) \<Rightarrow> dispatch_part_006 tm ys r w1)"
  by (induction xs arbitrary: acc w) (auto split: option.split prod.split sum.split)

lemma dispatch_part_006_acc:
  "dispatch_part_006 tm us acc w =
     (case dispatch_part_006 tm us [] w of
        (Inl err, w1) \<Rightarrow> (Inl err, w1)
      | (Inr r, w1) \<Rightarrow> (Inr (acc @ r), w1))"
proof (induction us arbitrary: acc w)
  case Nil
  show ?case by simp
next
  case (Cons u us)
  show ?case
    by (simp add: Cons.IH [of "acc @ _"] Cons.IH [of "[_]"]
             split: option.split prod.split sum.split)
qed

lemma dispatch_part_006_ids:
  "dispatch_part_006 tm us acc w = (Inr rs, w') \<Longrightarrow>
   map tool_use_id rs = map tool_use_id acc @ map tu_id us"
  by (induction us arbitrary: acc w)
     (auto simp: unknown_tool_result_def ok_tool_result_def failed_tool_result_def
           split: option.splits prod.splits sum.splits)

lemma dispatch_agent_ts_append:
  "dispatch_agent_ts tm (xs @ ys) acc w =
     (case dispatch_agent_ts tm xs acc w of
        (Inl err, w1) \<Rightarrow> (Inl err, w1)
      | (Inr r, w1) \<Rightarrow> dispatch_agent_ts tm ys r w1)"
proof (induction tm xs acc w rule: dispatch_agent_ts.induct)
  case (2 tm block blocks toolResults w)
  then show ?case
    by (auto split: option.split prod.split sum.split)
qed simp_all

lemma dispatch_agent_ts_ids:
  "dispatch_agent_ts tm bs acc w = (Inr rs, w') \<Longrightarrow>
   map tool_use_id rs = map tool_use_id acc @ map tu_id (toolUseBlocks bs)"
proof (induction tm bs acc w rule: dispatch_agent_ts.induct)
  case (2 tm block blocks toolResults w)
  then show ?case
    by (auto simp: unknown_tool_result_def ok_tool_result_def
             split: option.splits prod.splits sum.splits)
qed simp_all

section \<open>What a returned outcome says about the transcript\<close>

text \<open>
  Partial correctness over any number of rounds, by fixpoint induction on the loop.
  A returned answer is the answer of the last turn, an assistant turn (in the revision
  with the catch: one without tool-call segments).
\<close>

lemma part_006_answer_invariant:
  fixes create :: "'w provider"
  assumes "loop_part_006 create a w = Some (Inr ans, a', w')"
  shows "\<exists>blocks. messages a' \<noteq> [] \<and> last (messages a') = Message assistant (Blocks blocks)
           \<and> toolUseBlocks blocks = [] \<and> ans = answer blocks"
proof -
  let ?P = "\<lambda>(create :: 'w provider) (a :: 'w agent) (w :: 'w)
              (r :: (js_error + string) \<times> 'w agent \<times> 'w).
      \<forall>ans a' w'. r = (Inr ans, a', w') \<longrightarrow>
        (\<exists>blocks. messages a' \<noteq> [] \<and> last (messages a') = Message assistant (Blocks blocks)
           \<and> toolUseBlocks blocks = [] \<and> ans = answer blocks)"
  have "?P create a w (Inr ans, a', w')"
    by (rule loop_part_006.raw_induct [where P = ?P, OF _ assms])
       (auto split: prod.splits sum.splits if_splits simp: Let_def)
  then show ?thesis by blast
qed

lemma agent_ts_answer_invariant:
  fixes create :: "'w provider"
  assumes "loop_agent_ts create a w = Some (Inr ans, a', w')"
  shows "\<exists>blocks. messages a' \<noteq> [] \<and> last (messages a') = Message assistant (Blocks blocks)
           \<and> ans = answer blocks"
proof -
  let ?P = "\<lambda>(create :: 'w provider) (a :: 'w agent) (w :: 'w)
              (r :: (js_error + string) \<times> 'w agent \<times> 'w).
      \<forall>ans a' w'. r = (Inr ans, a', w') \<longrightarrow>
        (\<exists>blocks. messages a' \<noteq> [] \<and> last (messages a') = Message assistant (Blocks blocks)
           \<and> ans = answer blocks)"
  have "?P create a w (Inr ans, a', w')"
    by (rule loop_agent_ts.raw_induct [where P = ?P, OF _ assms])
       (auto split: prod.splits sum.splits if_splits simp: Let_def)
  then show ?thesis by blast
qed

text \<open>
  In the revision with the catch, when \<^verbatim>\<open>run\<close> returns an answer, the turns it
  appended are finished rounds: every tool call of every round was answered.
\<close>

lemma part_006_rounds_answered:
  fixes create :: "'w provider"
  assumes "loop_part_006 create a w = Some (Inr ans, a', w')"
  shows "\<exists>rounds. messages a' = messages a @ rounds \<and> answered_rounds rounds"
proof -
  let ?P = "\<lambda>(create :: 'w provider) (a :: 'w agent) (w :: 'w)
              (r :: (js_error + string) \<times> 'w agent \<times> 'w).
      \<forall>ans a' w'. r = (Inr ans, a', w') \<longrightarrow>
        (\<exists>rounds. messages a' = messages a @ rounds \<and> answered_rounds rounds)"
  have "?P create a w (Inr ans, a', w')"
  proof (rule loop_part_006.raw_induct [where P = ?P, OF _ assms], intro allI impI)
    fix loop :: "'w provider \<Rightarrow> 'w agent \<Rightarrow> 'w \<Rightarrow> ((js_error + string) \<times> 'w agent \<times> 'w) option"
      and create a w r ans a' w'
    assume IH: "\<And>c b v y. loop c b v = Some y \<Longrightarrow> ?P c b v y"
      and body: "(case provider_call create a w of
          (Inl err, w1) \<Rightarrow> Some (Inl err, a, w1)
        | (Inr response, w1) \<Rightarrow>
            (let a1 = a\<lparr>messages := messages a @ [Message assistant (Blocks (content response))]\<rparr>
             in if toolUseBlocks (content response) = []
                then Some (Inr (answer (content response)), a1, w1)
                else (case dispatch_part_006 (toolMap a1) (toolUseBlocks (content response)) [] w1 of
                        (Inl err, w2) \<Rightarrow> Some (Inl err, a1, w2)
                      | (Inr toolResults, w2) \<Rightarrow>
                          loop create
                            (a1\<lparr>messages := messages a1 @ [Message user (ToolResults toolResults)]\<rparr>)
                            w2))) = Some r"
      and r: "r = (Inr ans, a', w')"
    obtain out w1 where call: "provider_call create a w = (out, w1)"
      by (cases "provider_call create a w")
    show "\<exists>rounds. messages a' = messages a @ rounds \<and> answered_rounds rounds"
    proof (cases out)
      case (Inl err)
      with body call r show ?thesis by simp
    next
      case (Inr response)
      show ?thesis
      proof (cases "toolUseBlocks (content response) = []")
        case True
        with body call Inr r
        have "messages a' = messages a @ [Message assistant (Blocks (content response))]"
          by auto
        with True show ?thesis by auto
      next
        case False
        obtain res w2 where disp:
          "dispatch_part_006 (toolMap a) (toolUseBlocks (content response)) [] w1 = (res, w2)"
          by (cases "dispatch_part_006 (toolMap a) (toolUseBlocks (content response)) [] w1")
        show ?thesis
        proof (cases res)
          case (Inl err)
          with body call Inr False disp r show ?thesis by simp
        next
          case toolResults: (Inr toolResults)
          let ?a2 = "a\<lparr>messages := messages a @ [Message assistant (Blocks (content response)),
                                                   Message user (ToolResults toolResults)]\<rparr>"
          from body call Inr False disp toolResults
          have "loop create ?a2 w2 = Some r"
            by simp
          from IH [OF this] r obtain rounds where
            rounds: "messages a' = messages ?a2 @ rounds" "answered_rounds rounds"
            by blast
          have ids: "map tool_use_id toolResults = map tu_id (toolUseBlocks (content response))"
            using dispatch_part_006_ids [of "toolMap a" "toolUseBlocks (content response)" "[]" w1]
              disp toolResults by simp
          have "messages a' = messages a @
                  (Message assistant (Blocks (content response))
                   # Message user (ToolResults toolResults) # rounds)"
            using rounds(1) by simp
          moreover have "answered_rounds
                  (Message assistant (Blocks (content response))
                   # Message user (ToolResults toolResults) # rounds)"
            using False ids rounds(2) by simp
          ultimately show ?thesis by blast
        qed
      qed
    qed
  qed
  then show ?thesis by blast
qed

section \<open>When the loop returns\<close>

text \<open>
  In the revision with the catch (src/unnamed/part_006) a round returns an answer
  exactly when the response holds no tool-call segment; otherwise it dispatches the
  segments and, when the dispatch comes back with the results, appends them and goes
  on with the next provider call.
\<close>

lemma part_006_returns_iff_no_tool_call:
  assumes "provider_call create a w = (Inr response, w1)"
    and "dispatch_part_006 (toolMap a) (toolUseBlocks (content response)) [] w1 = (Inr toolResults, w2)"
  shows "loop_part_006 create a w =
     (if toolUseBlocks (content response) = []
      then Some (Inr (answer (content response)),
                 a\<lparr>messages := messages a @ [Message assistant (Blocks (content response))]\<rparr>, w1)
      else loop_part_006 create
             (a\<lparr>messages := messages a @ [Message assistant (Blocks (content response)),
                                            Message user (ToolResults toolResults)]\<rparr>) w2)"
  using assms by (simp add: loop_part_006_returns loop_part_006_continues)

text \<open>
  On a response that was cut at the token limit and still holds a tool-call segment,
  that revision runs the tool and calls the provider again.
\<close>

lemma part_006_dispatches_pending_tool_call:
  "run_part_006 (scripted [Inr resp_cut_short, Inr resp_done]) (agent_of two_tools)
     ''list files here'' []
   = Some (Inr ''done'',
           (agent_of two_tools)
             \<lparr>messages := [Message user (UserText ''list files here''),
                           Message assistant (Blocks [TextBlock ''Looking.'', ToolUse call_t1]),
                           Message user (ToolResults [ToolResult ''a'' ''r1'' None]),
                           Message assistant (Blocks [TextBlock ''done''])]\<rparr>,
           [''t1''])"
  unfolding run_part_006_def
  apply (subst loop_part_006.simps)
  apply (simp add: chat_def scripted_def agent_of_def answer_def resp_cut_short_def two_tools_def
      new_Map_def logging_tool_def call_t1_def ok_tool_result_def)
  apply (subst loop_part_006.simps)
  apply (simp add: chat_def scripted_def answer_def resp_done_def)
  done

text \<open>
  Claim C1: the loop returns an answer if and only if the response holds no tool-call
  segment, and dispatches and calls the provider again in every other case. The
  revision in src/src/agent.ts tests \<^verbatim>\<open>stop_reason !== "tool_use"\<close> instead. On a
  response cut at \<^verbatim>\<open>max_tokens\<close> that holds a tool-call segment it returns the text
  at once: the segment is in the transcript, no tool ran (the log is empty) and no
  tool-result turn answers it.
\<close>

theorem agent_ts_returns_with_pending_tool_call:
  "run_agent_ts (scripted [Inr resp_cut_short]) (agent_of two_tools) ''list files here'' []
   = Some (Inr ''Looking.'',
           (agent_of two_tools)
             \<lparr>messages := [Message user (UserText ''list files here''),
                           Message assistant (Blocks [TextBlock ''Looking.'', ToolUse call_t1])]\<rparr>,
           [])
   \<and> toolUseBlocks (content resp_cut_short) = [call_t1]"
  unfolding run_agent_ts_def
  by (subst loop_agent_ts.simps)
     (simp add: chat_def scripted_def agent_of_def answer_def resp_cut_short_def)

section \<open>A tool that fails\<close>

text \<open>
  In the revision with the catch a registered tool whose executor rejects with a value
  whose \<^verbatim>\<open>message\<close> can be read yields an error entry at its place, and the dispatch
  goes on with the world the executor left.
\<close>

lemma part_006_contains_tool_failure:
  assumes "tm (tu_name block) = Some t"
    and "execute t (tu_input block) w1 = (Inl err, w2)"
    and "message_text err = Inr msg"
    and "dispatch_part_006 tm before [] w = (Inr earlier, w1)"
  shows \<open>dispatch_part_006 tm (before @ block # rest) [] w =
           dispatch_part_006 tm rest
             (earlier @ [ToolResult (tu_id block)
                (''Error executing tool "'' @ tu_name block @ ''": '' @ msg) (Some True)])
             w2\<close>
  using assms by (simp add: dispatch_part_006_append failed_tool_result_def)

lemma part_006_survives_tool_failure:
  \<open>run_part_006 (scripted [Inr resp_one_call, Inr resp_done]) (agent_of [throwing_tool ''t1'' ''kaput''])
     ''go'' []
   = Some (Inr ''done'',
           (agent_of [throwing_tool ''t1'' ''kaput''])
             \<lparr>messages := [Message user (UserText ''go''),
                           Message assistant (Blocks [ToolUse call_t1]),
                           Message user (ToolResults
                             [ToolResult ''a'' ''Error executing tool "t1": kaput'' (Some True)]),
                           Message assistant (Blocks [TextBlock ''done''])]\<rparr>,
           [''t1''])\<close>
  unfolding run_part_006_def
  apply (subst loop_part_006.simps)
  apply (simp add: chat_def scripted_def agent_of_def throwing_tool_def resp_one_call_def
      call_t1_def failed_tool_result_def)
  apply (subst loop_part_006.simps)
  apply (simp add: chat_def scripted_def answer_def resp_done_def)
  done

text \<open>
  The catch does not contain a rejection with \<^verbatim>\<open>undefined\<close> (or \<^verbatim>\<open>null\<close>):
  reading \<^verbatim>\<open>message\<close> of it raises inside the \<^verbatim>\<open>catch\<close> block, and the
  \<^verbatim>\<open>TypeError\<close> leaves \<^verbatim>\<open>run\<close> with no tool-result turn appended.
\<close>

lemma part_006_aborts_on_undefined_rejection:
  "run_part_006 (scripted [Inr resp_one_call, Inr resp_done])
     (agent_of [rejecting_tool ''t1'' JsUndefined]) ''go'' []
   = Some (Inl (JsError (''Cannot read properties of undefined (reading '' @ [CHR 0x27]
                          @ ''message'' @ [CHR 0x27] @ '')'')),
           (agent_of [rejecting_tool ''t1'' JsUndefined])
             \<lparr>messages := [Message user (UserText ''go''),
                           Message assistant (Blocks [ToolUse call_t1])]\<rparr>,
           [''t1''])"
  unfolding run_part_006_def
  by (subst loop_part_006.simps)
     (simp add: chat_def scripted_def agent_of_def rejecting_tool_def resp_one_call_def
        call_t1_def)

text \<open>
  Claim C2: when the executor of a registered tool raises, the loop catches it,
  produces the error entry \<^verbatim>\<open>Error executing tool "<name>": <message>\<close>, appends the
  tool-result turn and calls the provider again. The revision in src/src/agent.ts
  awaits \<^verbatim>\<open>tool.execute\<close> outside any \<^verbatim>\<open>try\<close>: the rejection leaves
  \<^verbatim>\<open>run\<close>, no tool-result turn is appended and the provider is not called again
  (the second scripted response is never used).
\<close>

theorem agent_ts_aborts_on_tool_failure:
  "run_agent_ts (scripted [Inr resp_one_call, Inr resp_done]) (agent_of [throwing_tool ''t1'' ''kaput''])
     ''go'' []
   = Some (Inl (JsError ''kaput''),
           (agent_of [throwing_tool ''t1'' ''kaput''])
             \<lparr>messages := [Message user (UserText ''go''),
                           Message assistant (Blocks [ToolUse call_t1])]\<rparr>,
           [''t1''])"
  unfolding run_agent_ts_def
  by (subst loop_agent_ts.simps)
     (simp add: chat_def scripted_def agent_of_def throwing_tool_def resp_one_call_def call_t1_def)

section \<open>One result per tool call, in order\<close>

text \<open>
  In the revision with the catch, whenever \<^verbatim>\<open>run\<close> returns an answer, what it
  appended to the transcript is the user's message and then finished rounds: every
  assistant turn with tool-call segments is followed by a tool-result turn with one
  entry per segment, the same identifiers, the same order.
\<close>

lemma part_006_run_rounds_answered:
  fixes create :: "'w provider"
  assumes "run_part_006 create a userMessage w = Some (Inr ans, a', w')"
  shows "\<exists>rounds. messages a' = messages a @ Message user (UserText userMessage) # rounds
           \<and> answered_rounds rounds"
  using part_006_rounds_answered [OF assms [unfolded run_part_006_def]] by simp

text \<open>The scenario of two tool calls in one assistant turn, both succeeding.\<close>

lemma part_006_two_calls_scenario:
  "run_part_006 (scripted [Inr resp_two_calls, Inr resp_done]) (agent_of two_tools) ''go'' []
   = Some (Inr ''done'',
           (agent_of two_tools)
             \<lparr>messages := [Message user (UserText ''go''),
                           Message assistant
                             (Blocks [TextBlock ''Working.'', ToolUse call_t1, ToolUse call_t2]),
                           Message user (ToolResults [ToolResult ''a'' ''r1'' None,
                                                      ToolResult ''b'' ''r2'' None]),
                           Message assistant (Blocks [TextBlock ''done''])]\<rparr>,
           [''t1'', ''t2''])"
  unfolding run_part_006_def
  apply (subst loop_part_006.simps)
  apply (simp add: chat_def scripted_def agent_of_def resp_two_calls_def two_tools_def
      new_Map_def logging_tool_def call_t1_def call_t2_def ok_tool_result_def)
  apply (subst loop_part_006.simps)
  apply (simp add: chat_def scripted_def answer_def resp_done_def)
  done

text \<open>
  Claim C3: for every assistant turn, the tool-result turn appended in its round holds
  exactly one entry per tool-call segment of the turn, with the same call identifiers
  in the same order. The revision in src/src/agent.ts leaves assistant turns with
  tool-call segments without any tool-result entry. First run: the response holds the
  calls \<open>a\<close> and \<open>b\<close> and was cut at \<^verbatim>\<open>max_tokens\<close>; \<^verbatim>\<open>run\<close> returns, the
  transcript ends with the assistant turn, no tool ran. Second run: the stop reason is
  \<^verbatim>\<open>tool_use\<close>, the tool of call \<open>a\<close> runs and succeeds, the tool of call \<open>b\<close>
  rejects; the rejection leaves \<^verbatim>\<open>run\<close> and the result of call \<open>a\<close> is dropped
  with the array: two segments, no entry.
\<close>

theorem agent_ts_leaves_tool_calls_unanswered:
  "run_agent_ts (scripted [Inr resp_two_calls_cut_short, Inr resp_done]) (agent_of two_tools)
     ''go'' []
   = Some (Inr [],
           (agent_of two_tools)
             \<lparr>messages := [Message user (UserText ''go''),
                           Message assistant (Blocks [ToolUse call_t1, ToolUse call_t2])]\<rparr>,
           [])
   \<and> map tu_id (toolUseBlocks (content resp_two_calls_cut_short)) = [''a'', ''b'']
   \<and> run_agent_ts (scripted [Inr resp_two_calls, Inr resp_done])
         (agent_of [logging_tool ''t1'' ''r1'', throwing_tool ''t2'' ''kaput'']) ''go'' []
   = Some (Inl (JsError ''kaput''),
           (agent_of [logging_tool ''t1'' ''r1'', throwing_tool ''t2'' ''kaput''])
             \<lparr>messages := [Message user (UserText ''go''),
                           Message assistant
                             (Blocks [TextBlock ''Working.'', ToolUse call_t1, ToolUse call_t2])]\<rparr>,
           [''t1'', ''t2''])
   \<and> map tu_id (toolUseBlocks (content resp_two_calls)) = [''a'', ''b'']"
proof (intro conjI)
  show "run_agent_ts (scripted [Inr resp_two_calls_cut_short, Inr resp_done]) (agent_of two_tools)
     ''go'' []
   = Some (Inr [],
           (agent_of two_tools)
             \<lparr>messages := [Message user (UserText ''go''),
                           Message assistant (Blocks [ToolUse call_t1, ToolUse call_t2])]\<rparr>,
           [])"
    unfolding run_agent_ts_def
    by (subst loop_agent_ts.simps)
       (simp add: chat_def scripted_def agent_of_def answer_def resp_two_calls_cut_short_def)
  show "run_agent_ts (scripted [Inr resp_two_calls, Inr resp_done])
         (agent_of [logging_tool ''t1'' ''r1'', throwing_tool ''t2'' ''kaput'']) ''go'' []
   = Some (Inl (JsError ''kaput''),
           (agent_of [logging_tool ''t1'' ''r1'', throwing_tool ''t2'' ''kaput''])
             \<lparr>messages := [Message user (UserText ''go''),
                           Message assistant
                             (Blocks [TextBlock ''Working.'', ToolUse call_t1, ToolUse call_t2])]\<rparr>,
           [''t1'', ''t2''])"
    unfolding run_agent_ts_def
    by (subst loop_agent_ts.simps)
       (simp add: chat_def scripted_def agent_of_def resp_two_calls_def new_Map_def
          logging_tool_def throwing_tool_def call_t1_def call_t2_def ok_tool_result_def)
  show "map tu_id (toolUseBlocks (content resp_two_calls_cut_short)) = [''a'', ''b'']"
    by (simp add: resp_two_calls_cut_short_def call_t1_def call_t2_def)
  show "map tu_id (toolUseBlocks (content resp_two_calls)) = [''a'', ''b'']"
    by (simp add: resp_two_calls_def call_t1_def call_t2_def)
qed

section \<open>A tool that is not registered\<close>

text \<open>
  In the revision with the catch: after the segments before it left the results
  \<open>earlier\<close> and the world \<open>w1\<close>, a segment naming a tool absent from the registry
  has exactly the entry \<^verbatim>\<open>Error: unknown tool "<name>"\<close> pushed for it, and the
  dispatch goes on to the segments behind it with the world \<open>w1\<close> untouched: no
  executor ran for it. When the dispatch comes back with the results, the entry sits
  at the segment's position.
\<close>

lemma part_006_unknown_tool_entry:
  assumes unknown: "tm (tu_name block) = None"
    and front: "dispatch_part_006 tm before [] w = (Inr earlier, w1)"
  shows \<open>dispatch_part_006 tm (before @ block # rest) [] w =
          dispatch_part_006 tm rest
            (earlier @ [ToolResult (tu_id block) (''Error: unknown tool "'' @ tu_name block @ ''"'')
                          (Some True)]) w1\<close>
    and \<open>dispatch_part_006 tm (before @ block # rest) [] w = (Inr toolResults, w2) \<Longrightarrow>
          toolResults ! length before =
            ToolResult (tu_id block) (''Error: unknown tool "'' @ tu_name block @ ''"'') (Some True)\<close>
proof -
  define entry where
    \<open>entry = ToolResult (tu_id block) (''Error: unknown tool "'' @ tu_name block @ ''"'') (Some True)\<close>
  have step: "dispatch_part_006 tm (before @ block # rest) [] w =
        dispatch_part_006 tm rest (earlier @ [entry]) w1"
    using unknown front by (simp add: dispatch_part_006_append unknown_tool_result_def entry_def)
  then show \<open>dispatch_part_006 tm (before @ block # rest) [] w =
        dispatch_part_006 tm rest
          (earlier @ [ToolResult (tu_id block) (''Error: unknown tool "'' @ tu_name block @ ''"'')
                        (Some True)]) w1\<close>
    by (simp only: entry_def)
  have "map tool_use_id earlier = map tu_id before"
    using dispatch_part_006_ids [OF front] by simp
  then have len: "length earlier = length before"
    by (rule map_eq_imp_length_eq)
  {
    assume whole: "dispatch_part_006 tm (before @ block # rest) [] w = (Inr toolResults, w2)"
    then have "dispatch_part_006 tm rest (earlier @ [entry]) w1 = (Inr toolResults, w2)"
      by (simp only: step)
    then obtain behind where "toolResults = (earlier @ [entry]) @ behind"
      by (subst (asm) dispatch_part_006_acc) (auto split: prod.splits sum.splits)
    with len have "toolResults ! length before = entry"
      by (simp add: nth_append)
  }
  then show \<open>dispatch_part_006 tm (before @ block # rest) [] w = (Inr toolResults, w2) \<Longrightarrow>
          toolResults ! length before =
            ToolResult (tu_id block) (''Error: unknown tool "'' @ tu_name block @ ''"'') (Some True)\<close>
    by (simp only: entry_def)
qed

text \<open>
  The scenario of the unregistered \<^verbatim>\<open>read_file\<close>: the model is told, answers in
  text, and that text is the final answer. No executor ran (the log is empty).
\<close>

lemma part_006_unknown_tool_scenario:
  \<open>run_part_006 (scripted [Inr resp_read_file, Inr resp_not_found]) (agent_of two_tools)
     ''list files here'' []
   = Some (Inr ''I could not find that tool.'',
           (agent_of two_tools)
             \<lparr>messages := [Message user (UserText ''list files here''),
                           Message assistant (Blocks [ToolUse call_read_file]),
                           Message user (ToolResults
                             [ToolResult ''c'' ''Error: unknown tool "read_file"'' (Some True)]),
                           Message assistant (Blocks [TextBlock ''I could not find that tool.''])]\<rparr>,
           [])\<close>
  unfolding run_part_006_def
  apply (subst loop_part_006.simps)
  apply (simp add: chat_def scripted_def agent_of_def resp_read_file_def two_tools_def
      new_Map_def logging_tool_def call_read_file_def unknown_tool_result_def)
  apply (subst loop_part_006.simps)
  apply (simp add: chat_def scripted_def answer_def resp_not_found_def)
  done

text \<open>
  Claim C4: every tool-call segment naming a tool absent from the registry gets the
  entry with \<^verbatim>\<open>is_error = true\<close> and the text \<^verbatim>\<open>Error: unknown tool "<name>"\<close>,
  and no executor is invoked for it. The revision in src/src/agent.ts invokes no
  executor for such a segment, but does not always produce the entry. First run: the
  response naming the unregistered \<^verbatim>\<open>read_file\<close> was cut at \<^verbatim>\<open>max_tokens\<close>;
  \<^verbatim>\<open>run\<close> returns before the dispatch loop and the segment gets no entry. Second
  run: the entry for \<^verbatim>\<open>read_file\<close> is pushed, then the tool of the next segment
  rejects; the rejection leaves \<^verbatim>\<open>run\<close> and the entry is dropped with the array.
\<close>

theorem agent_ts_loses_unknown_tool_entry:
  "toolMap (agent_of two_tools) (tu_name call_read_file) = None
   \<and> run_agent_ts (scripted [Inr resp_unknown_cut_short, Inr resp_not_found]) (agent_of two_tools)
       ''list files here'' []
     = Some (Inr [],
             (agent_of two_tools)
               \<lparr>messages := [Message user (UserText ''list files here''),
                             Message assistant (Blocks [ToolUse call_read_file])]\<rparr>,
             [])
   \<and> toolMap (agent_of [throwing_tool ''t1'' ''kaput'']) (tu_name call_read_file) = None
   \<and> run_agent_ts (scripted [Inr resp_unknown_then_call, Inr resp_not_found])
       (agent_of [throwing_tool ''t1'' ''kaput'']) ''list files here'' []
     = Some (Inl (JsError ''kaput''),
             (agent_of [throwing_tool ''t1'' ''kaput''])
               \<lparr>messages := [Message user (UserText ''list files here''),
                             Message assistant (Blocks [ToolUse call_read_file, ToolUse call_t1])]\<rparr>,
             [''t1''])"
proof (intro conjI)
  show "toolMap (agent_of two_tools) (tu_name call_read_file) = None"
    by (simp add: agent_of_def two_tools_def new_Map_def logging_tool_def call_read_file_def)
  show "toolMap (agent_of [throwing_tool ''t1'' ''kaput'']) (tu_name call_read_file) = None"
    by (simp add: agent_of_def throwing_tool_def call_read_file_def)
  show "run_agent_ts (scripted [Inr resp_unknown_cut_short, Inr resp_not_found]) (agent_of two_tools)
       ''list files here'' []
     = Some (Inr [],
             (agent_of two_tools)
               \<lparr>messages := [Message user (UserText ''list files here''),
                             Message assistant (Blocks [ToolUse call_read_file])]\<rparr>,
             [])"
    unfolding run_agent_ts_def
    by (subst loop_agent_ts.simps)
       (simp add: chat_def scripted_def agent_of_def answer_def resp_unknown_cut_short_def)
  show "run_agent_ts (scripted [Inr resp_unknown_then_call, Inr resp_not_found])
       (agent_of [throwing_tool ''t1'' ''kaput'']) ''list files here'' []
     = Some (Inl (JsError ''kaput''),
             (agent_of [throwing_tool ''t1'' ''kaput''])
               \<lparr>messages := [Message user (UserText ''list files here''),
                             Message assistant (Blocks [ToolUse call_read_file, ToolUse call_t1])]\<rparr>,
             [''t1''])"
    unfolding run_agent_ts_def
    by (subst loop_agent_ts.simps)
       (simp add: chat_def scripted_def agent_of_def resp_unknown_then_call_def
          throwing_tool_def call_read_file_def call_t1_def)
qed

section \<open>A provider call that fails\<close>

text \<open>
  Claim C5: when the provider call fails, the error leaves \<^verbatim>\<open>run\<close> uncaught and the
  conversation is as it was just before the failed call: no assistant turn and no
  tool-result turn is appended for it, and the user turn pushed before the call
  stays. Both revisions, for the call of any round (the agent \<open>a\<close> holds every turn
  appended so far) and for the first call of \<^verbatim>\<open>run\<close>.
\<close>

theorem provider_failure_propagates:
  "(provider_call create a w = (Inl err, w1) \<longrightarrow>
      loop_part_006 create a w = Some (Inl err, a, w1)
      \<and> loop_agent_ts create a w = Some (Inl err, a, w1))
   \<and>
   (provider_call create (a\<lparr>messages := messages a @ [Message user (UserText userMessage)]\<rparr>) w
      = (Inl err, w1) \<longrightarrow>
      run_part_006 create a userMessage w =
        Some (Inl err, a\<lparr>messages := messages a @ [Message user (UserText userMessage)]\<rparr>, w1)
      \<and> run_agent_ts create a userMessage w =
        Some (Inl err, a\<lparr>messages := messages a @ [Message user (UserText userMessage)]\<rparr>, w1))"
  by (simp add: loop_part_006_chat_fails loop_agent_ts_chat_fails run_part_006_def run_agent_ts_def)

theorem provider_failure_propagates_witness:
  "provider_call (scripted [Inr resp_one_call, Inl (JsError ''overloaded'')])
      ((asked two_tools ''go'')
         \<lparr>messages := [Message user (UserText ''go''), Message assistant (Blocks [ToolUse call_t1]),
                       Message user (ToolResults [ToolResult ''a'' ''r1'' None])]\<rparr>) [''t1'']
     = (Inl (JsError ''overloaded''), [''t1''])
   \<and> provider_call (scripted [Inl (JsError ''overloaded'')])
        ((agent_of two_tools)
           \<lparr>messages := messages (agent_of two_tools) @ [Message user (UserText ''go'')]\<rparr>) []
     = (Inl (JsError ''overloaded''), [])
   \<and> run_part_006 (scripted [Inl (JsError ''overloaded'')]) (agent_of two_tools) ''go'' []
     = Some (Inl (JsError ''overloaded''),
             (agent_of two_tools)
               \<lparr>messages := messages (agent_of two_tools) @ [Message user (UserText ''go'')]\<rparr>, [])
   \<and> run_agent_ts (scripted [Inl (JsError ''overloaded'')]) (agent_of two_tools) ''go'' []
     = Some (Inl (JsError ''overloaded''),
             (agent_of two_tools)
               \<lparr>messages := messages (agent_of two_tools) @ [Message user (UserText ''go'')]\<rparr>, [])
   \<and> run_part_006 (scripted [Inr resp_one_call, Inl (JsError ''overloaded'')]) (agent_of two_tools)
       ''go'' []
     = Some (Inl (JsError ''overloaded''),
             (asked two_tools ''go'')
               \<lparr>messages := [Message user (UserText ''go''),
                             Message assistant (Blocks [ToolUse call_t1]),
                             Message user (ToolResults [ToolResult ''a'' ''r1'' None])]\<rparr>,
             [''t1''])
   \<and> run_agent_ts (scripted [Inr resp_one_call, Inl (JsError ''overloaded'')]) (agent_of two_tools)
       ''go'' []
     = Some (Inl (JsError ''overloaded''),
             (asked two_tools ''go'')
               \<lparr>messages := [Message user (UserText ''go''),
                             Message assistant (Blocks [ToolUse call_t1]),
                             Message user (ToolResults [ToolResult ''a'' ''r1'' None])]\<rparr>,
             [''t1''])"
proof -
  let ?create = "scripted [Inr resp_one_call, Inl (JsError ''overloaded'')] :: string list provider"
  let ?a2 = "(asked two_tools ''go'')
         \<lparr>messages := [Message user (UserText ''go''), Message assistant (Blocks [ToolUse call_t1]),
                       Message user (ToolResults [ToolResult ''a'' ''r1'' None])]\<rparr>"
  have h1: "provider_call ?create ?a2 [''t1''] = (Inl (JsError ''overloaded''), [''t1''])"
    by (simp add: chat_def scripted_def)
  have h2: "provider_call (scripted [Inl (JsError ''overloaded'')])
        ((agent_of two_tools)
           \<lparr>messages := messages (agent_of two_tools) @ [Message user (UserText ''go'')]\<rparr>)
        ([] :: string list)
     = (Inl (JsError ''overloaded''), [])"
    by (simp add: chat_def scripted_def agent_of_def)
  have first: "provider_call ?create (asked two_tools ''go'') [] = (Inr resp_one_call, [])"
    by (simp add: chat_def scripted_def asked_def agent_of_def)
  have disp: "dispatch_part_006 (toolMap (asked two_tools ''go''))
        (toolUseBlocks (content resp_one_call)) [] []
      = (Inr [ToolResult ''a'' ''r1'' None], [''t1''])"
    by (simp add: resp_one_call_def two_tools_map call_t1_def logging_tool_def ok_tool_result_def)
  have disp': "dispatch_agent_ts (toolMap (asked two_tools ''go'')) (content resp_one_call) [] []
      = (Inr [ToolResult ''a'' ''r1'' None], [''t1''])"
    by (simp add: resp_one_call_def two_tools_map call_t1_def logging_tool_def ok_tool_result_def)
  have round1: "loop_part_006 ?create (asked two_tools ''go'') [] = loop_part_006 ?create ?a2 [''t1'']"
    using loop_part_006_continues [OF first _ disp]
    by (simp add: resp_one_call_def asked_def)
  have round1': "loop_agent_ts ?create (asked two_tools ''go'') [] = loop_agent_ts ?create ?a2 [''t1'']"
    using loop_agent_ts_continues [OF first _ disp']
    by (simp add: resp_one_call_def asked_def)
  have start: "(agent_of two_tools)
        \<lparr>messages := messages (agent_of two_tools) @ [Message user (UserText ''go'')]\<rparr>
      = asked two_tools ''go''"
    by (simp add: asked_def agent_of_def)
  from provider_failure_propagates
         [where create = ?create and a = ?a2 and w = "[''t1'']" and err = "JsError ''overloaded''"
            and ?w1.0 = "[''t1'']"] h1
  have later: "loop_part_006 ?create ?a2 [''t1''] = Some (Inl (JsError ''overloaded''), ?a2, [''t1''])"
    and later': "loop_agent_ts ?create ?a2 [''t1''] = Some (Inl (JsError ''overloaded''), ?a2, [''t1''])"
    by blast+
  from provider_failure_propagates
         [where create = "scripted [Inl (JsError ''overloaded'')]" and a = "agent_of two_tools"
            and userMessage = "''go''" and w = "[]" and err = "JsError ''overloaded''"
            and ?w1.0 = "[]"] h2
  have at_once: "run_part_006 (scripted [Inl (JsError ''overloaded'')]) (agent_of two_tools) ''go'' []
     = Some (Inl (JsError ''overloaded''),
             (agent_of two_tools)
               \<lparr>messages := messages (agent_of two_tools) @ [Message user (UserText ''go'')]\<rparr>, [])"
    and at_once': "run_agent_ts (scripted [Inl (JsError ''overloaded'')]) (agent_of two_tools) ''go'' []
     = Some (Inl (JsError ''overloaded''),
             (agent_of two_tools)
               \<lparr>messages := messages (agent_of two_tools) @ [Message user (UserText ''go'')]\<rparr>, [])"
    by blast+
  have second: "run_part_006 ?create (agent_of two_tools) ''go'' []
      = Some (Inl (JsError ''overloaded''), ?a2, [''t1''])"
    by (simp only: run_part_006_def start round1 later)
  have second': "run_agent_ts ?create (agent_of two_tools) ''go'' []
      = Some (Inl (JsError ''overloaded''), ?a2, [''t1''])"
    by (simp only: run_agent_ts_def start round1' later')
  from h1 h2 at_once at_once' second second' show ?thesis
    by (intro conjI)
qed

section \<open>The final answer\<close>

text \<open>
  Claim C6: when the loop returns, the answer is the text segments of the last
  assistant turn, in order, joined by one newline; a response without any segment
  gives the empty string. Both revisions, after any number of rounds. The revision
  in src/src/agent.ts returns on a response without segments when its stop reason is
  not \<^verbatim>\<open>tool_use\<close>.
\<close>

theorem final_answer_joins_text_segments:
  fixes create :: "'w provider"
  shows
  "(loop_part_006 create a w = Some (Inr ans, a', w') \<longrightarrow>
      (\<exists>blocks. last (messages a') = Message assistant (Blocks blocks)
         \<and> ans = join [CHR 0x0A] (map tb_text (filter is_text blocks))))
   \<and>
   (loop_agent_ts create a w = Some (Inr ans, a', w') \<longrightarrow>
      (\<exists>blocks. last (messages a') = Message assistant (Blocks blocks)
         \<and> ans = join [CHR 0x0A] (map tb_text (filter is_text blocks))))
   \<and>
   (provider_call create a w = (Inr response, w1) \<longrightarrow> content response = [] \<longrightarrow>
      loop_part_006 create a w =
        Some (Inr [], a\<lparr>messages := messages a @ [Message assistant (Blocks [])]\<rparr>, w1))
   \<and>
   (provider_call create a w = (Inr response, w1) \<longrightarrow> content response = [] \<longrightarrow>
    stop_reason response \<noteq> Some tool_use \<longrightarrow>
      loop_agent_ts create a w =
        Some (Inr [], a\<lparr>messages := messages a @ [Message assistant (Blocks [])]\<rparr>, w1))"
proof (intro conjI impI)
  assume "loop_part_006 create a w = Some (Inr ans, a', w')"
  from part_006_answer_invariant [OF this]
  show "\<exists>blocks. last (messages a') = Message assistant (Blocks blocks)
         \<and> ans = join [CHR 0x0A] (map tb_text (filter is_text blocks))"
    by (auto simp: answer_def texts_def)
next
  assume "loop_agent_ts create a w = Some (Inr ans, a', w')"
  from agent_ts_answer_invariant [OF this]
  show "\<exists>blocks. last (messages a') = Message assistant (Blocks blocks)
         \<and> ans = join [CHR 0x0A] (map tb_text (filter is_text blocks))"
    by (auto simp: answer_def texts_def)
next
  assume "provider_call create a w = (Inr response, w1)" and "content response = []"
  then show "loop_part_006 create a w =
        Some (Inr [], a\<lparr>messages := messages a @ [Message assistant (Blocks [])]\<rparr>, w1)"
    using loop_part_006_returns [of create a w response w1] by (simp add: answer_def)
next
  assume "provider_call create a w = (Inr response, w1)" and "content response = []"
    and "stop_reason response \<noteq> Some tool_use"
  then show "loop_agent_ts create a w =
        Some (Inr [], a\<lparr>messages := messages a @ [Message assistant (Blocks [])]\<rparr>, w1)"
    using loop_agent_ts_returns [of create a w response w1] by (simp add: answer_def)
qed

theorem final_answer_joins_text_segments_witness:
  "loop_part_006 (scripted [Inr resp_answer]) (asked two_tools ''go'') []
     = Some (Inr (''one'' @ [CHR 0x0A] @ ''two''),
             (asked two_tools ''go'')
               \<lparr>messages := [Message user (UserText ''go''), Message assistant (Blocks (content resp_answer))]\<rparr>, [])
   \<and> loop_agent_ts (scripted [Inr resp_answer]) (asked two_tools ''go'') []
     = Some (Inr (''one'' @ [CHR 0x0A] @ ''two''),
             (asked two_tools ''go'')
               \<lparr>messages := [Message user (UserText ''go''), Message assistant (Blocks (content resp_answer))]\<rparr>, [])
   \<and> (\<exists>blocks. last [Message user (UserText ''go''), Message assistant (Blocks (content resp_answer))]
          = Message assistant (Blocks blocks)
        \<and> ''one'' @ [CHR 0x0A] @ ''two'' = join [CHR 0x0A] (map tb_text (filter is_text blocks)))
   \<and> provider_call (scripted [Inr resp_empty]) (asked two_tools ''go'') [] = (Inr resp_empty, [])
   \<and> content resp_empty = [] \<and> stop_reason resp_empty \<noteq> Some tool_use
   \<and> loop_part_006 (scripted [Inr resp_empty]) (asked two_tools ''go'') []
     = Some (Inr [], (asked two_tools ''go'')
               \<lparr>messages := [Message user (UserText ''go''), Message assistant (Blocks [])]\<rparr>, [])
   \<and> loop_agent_ts (scripted [Inr resp_empty]) (asked two_tools ''go'') []
     = Some (Inr [], (asked two_tools ''go'')
               \<lparr>messages := [Message user (UserText ''go''), Message assistant (Blocks [])]\<rparr>, [])"
proof -
  let ?a = "asked two_tools ''go''"
  let ?a' = "?a\<lparr>messages := [Message user (UserText ''go''), Message assistant (Blocks (content resp_answer))]\<rparr>"
  have call: "provider_call (scripted [Inr resp_answer]) ?a ([] :: string list) = (Inr resp_answer, [])"
    by (simp add: chat_def scripted_def asked_def agent_of_def)
  have g1: "loop_part_006 (scripted [Inr resp_answer]) ?a []
     = Some (Inr (''one'' @ [CHR 0x0A] @ ''two''), ?a', [])"
    using loop_part_006_returns [OF call] by (simp add: resp_answer_def answer_def asked_def)
  have g2: "loop_agent_ts (scripted [Inr resp_answer]) ?a []
     = Some (Inr (''one'' @ [CHR 0x0A] @ ''two''), ?a', [])"
    using loop_agent_ts_returns [OF call] by (simp add: resp_answer_def answer_def asked_def)
  have h1: "provider_call (scripted [Inr resp_empty]) ?a ([] :: string list) = (Inr resp_empty, [])"
    by (simp add: chat_def scripted_def asked_def agent_of_def)
  have h2: "content resp_empty = []" and h3: "stop_reason resp_empty \<noteq> Some tool_use"
    by (simp_all add: resp_empty_def)
  note joined = final_answer_joins_text_segments
    [where create = "scripted [Inr resp_answer]" and a = ?a and w = "[]"
       and ans = "''one'' @ [CHR 0x0A] @ ''two''" and a' = ?a' and w' = "[]"]
  note empty = final_answer_joins_text_segments
    [where create = "scripted [Inr resp_empty]" and a = ?a and w = "[]" and response = resp_empty
       and ?w1.0 = "[]"]
  from joined g1 have c1: "\<exists>blocks. last (messages ?a') = Message assistant (Blocks blocks)
        \<and> ''one'' @ [CHR 0x0A] @ ''two'' = join [CHR 0x0A] (map tb_text (filter is_text blocks))"
    by blast
  from empty h1 h2 h3 have c2: "loop_part_006 (scripted [Inr resp_empty]) ?a []
     = Some (Inr [], ?a\<lparr>messages := messages ?a @ [Message assistant (Blocks [])]\<rparr>, [])"
     and c3: "loop_agent_ts (scripted [Inr resp_empty]) ?a []
     = Some (Inr [], ?a\<lparr>messages := messages ?a @ [Message assistant (Blocks [])]\<rparr>, [])"
    by blast+
  from g1 g2 c1 c2 c3 h1 h2 h3 show ?thesis
    by (simp add: asked_def)
qed

section \<open>The tool registry\<close>

text \<open>Looking a name up in the map the constructor builds finds the last tool of that name.\<close>

lemma find_in_append:
  "find P (xs @ ys) = (case find P xs of None \<Rightarrow> find P ys | Some x \<Rightarrow> Some x)"
  by (induction xs) simp_all

lemma fold_update_find:
  "fold (\<lambda>(k, v) m. m(k \<mapsto> v)) (map (\<lambda>t. (name t, t)) ts) m n =
     (case find (\<lambda>t. name t = n) (rev ts) of None \<Rightarrow> m n | Some t \<Rightarrow> Some t)"
proof (induction ts arbitrary: m)
  case Nil
  show ?case by simp
next
  case (Cons t ts)
  have "fold (\<lambda>(k, v) m. m(k \<mapsto> v)) (map (\<lambda>t. (name t, t)) (t # ts)) m n =
        fold (\<lambda>(k, v) m. m(k \<mapsto> v)) (map (\<lambda>t. (name t, t)) ts) (m(name t \<mapsto> t)) n"
    by simp
  also have "\<dots> = (case find (\<lambda>t. name t = n) (rev ts) of
                      None \<Rightarrow> (m(name t \<mapsto> t)) n | Some t' \<Rightarrow> Some t')"
    by (rule Cons.IH)
  also have "\<dots> = (case find (\<lambda>t. name t = n) (rev (t # ts)) of
                      None \<Rightarrow> m n | Some t' \<Rightarrow> Some t')"
    by (simp add: find_in_append split: option.split)
  finally show ?case .
qed

lemma new_Map_last_wins:
  "new_Map (map (\<lambda>t. (name t, t)) ts) n = find (\<lambda>t. name t = n) (rev ts)"
  by (simp add: new_Map_def fold_update_find split: option.split)

text \<open>
  Claim C7, as stated: a configuration whose tool list holds two tools of one name is
  rejected at construction. It is not: the constructor has no check and no
  \<^verbatim>\<open>throw\<close>. With two tools named \<^verbatim>\<open>bash\<close> it returns an agent, and a lookup of
  \<^verbatim>\<open>bash\<close> resolves to the second one.
\<close>

theorem duplicate_names_accepted:
  "\<not> distinct (map name (cfg_tools (stub_config duplicate_tools)))
   \<and> \<not> isl (Agent_constructor (stub_config duplicate_tools))
   \<and> map_option description (toolMap (projr (Agent_constructor (stub_config duplicate_tools))) ''bash'')
       = Some ''second''"
  by (simp add: Agent_constructor_def stub_config_def duplicate_tools_def new_Map_def)

text \<open>
  Claim C7, amended: construction accepts every tool list. A name that occurs more
  than once resolves, at dispatch, to the last tool of that name in the list, and the
  schema list advertised to the provider still names every tool of the list.
\<close>

theorem constructor_keeps_last_of_each_name:
  "\<exists>a. Agent_constructor config = Inr a
       \<and> (\<forall>n. toolMap a n = find (\<lambda>t. name t = n) (rev (cfg_tools config)))
       \<and> map at_name (anthropicTools a) = map name (cfg_tools config)"
  by (simp add: Agent_constructor_def new_Map_last_wins toAnthropicTools_def comp_def)

theorem constructor_keeps_last_of_each_name_witness:
  "\<exists>a. Agent_constructor (stub_config duplicate_tools) = Inr a
       \<and> map_option description (toolMap a ''bash'') = Some ''second''
       \<and> toolMap a ''read_file'' = None
       \<and> map at_name (anthropicTools a) = [''bash'', ''bash'']"
  using constructor_keeps_last_of_each_name [of "stub_config duplicate_tools"]
  by (auto simp: stub_config_def duplicate_tools_def)

section \<open>The schemas advertised to the provider\<close>

text \<open>
  Claim C8, as stated: every entry of \<^verbatim>\<open>toAnthropicTools\<close> preserves the tool's input
  schema unchanged. A schema without a \<^verbatim>\<open>type\<close> key gains one.
\<close>

theorem schema_gains_type_key:
  "map input_schema (toAnthropicTools [bare_tool]) \<noteq> map inputSchema [bare_tool]
   \<and> input_schema (hd (toAnthropicTools [bare_tool])) ''type'' = Some (JStr ''object'')
   \<and> inputSchema bare_tool ''type'' = None"
  by (auto simp: toAnthropicTools_def bare_tool_def dest: fun_cong [where x = "''type''"])

text \<open>
  Claim C8, amended: the list of \<^verbatim>\<open>toAnthropicTools\<close> has the length and order of
  the tool list; each entry has the tool's name and description unchanged, and its
  input schema is the tool's schema when that has a \<^verbatim>\<open>type\<close> key, and the tool's
  schema with \<^verbatim>\<open>type\<close> set to \<^verbatim>\<open>"object"\<close> when it has none. Every key of the
  tool's schema keeps its value.
\<close>

theorem toAnthropicTools_translation:
  "map at_name (toAnthropicTools tools) = map name tools
   \<and> map at_description (toAnthropicTools tools) = map description tools
   \<and> map input_schema (toAnthropicTools tools) =
       map (\<lambda>t. case inputSchema t ''type'' of
                   Some _ \<Rightarrow> inputSchema t
                 | None \<Rightarrow> (inputSchema t)(''type'' \<mapsto> JStr ''object'')) tools
   \<and> (\<forall>i < length tools. \<forall>k v. inputSchema (tools ! i) k = Some v \<longrightarrow>
         input_schema (toAnthropicTools tools ! i) k = Some v)"
proof -
  have schema: "[''type'' \<mapsto> JStr ''object''] ++ s =
      (case s ''type'' of Some _ \<Rightarrow> s | None \<Rightarrow> s(''type'' \<mapsto> JStr ''object''))"
    for s :: json_record
    by (rule ext) (simp add: map_add_def split: option.split)
  have kept: "([''type'' \<mapsto> JStr ''object''] ++ s) k = Some v" if "s k = Some v"
    for s :: json_record and k v
    using that by (simp add: map_add_def)
  have "map input_schema (toAnthropicTools tools) =
       map (\<lambda>t. case inputSchema t ''type'' of
                   Some _ \<Rightarrow> inputSchema t
                 | None \<Rightarrow> (inputSchema t)(''type'' \<mapsto> JStr ''object'')) tools"
    by (simp only: toAnthropicTools_def map_map comp_def anthropic_tool.simps schema)
  moreover have "\<forall>i < length tools. \<forall>k v. inputSchema (tools ! i) k = Some v \<longrightarrow>
         input_schema (toAnthropicTools tools ! i) k = Some v"
    by (simp add: toAnthropicTools_def kept del: map_add_Some_iff)
  ultimately show ?thesis
    by (simp add: toAnthropicTools_def comp_def)
qed

theorem toAnthropicTools_translation_witness:
  "map at_name (toAnthropicTools [bare_tool, logging_tool ''t1'' ''r1'']) = [''noop'', ''t1'']
   \<and> map at_description (toAnthropicTools [bare_tool, logging_tool ''t1'' ''r1''])
       = [''does nothing'', ''replies'']
   \<and> map input_schema (toAnthropicTools [bare_tool, logging_tool ''t1'' ''r1''])
       = [[''type'' \<mapsto> JStr ''object''], inputSchema (logging_tool ''t1'' ''r1'')]
   \<and> (1::nat) < length [bare_tool, logging_tool ''t1'' ''r1'']
   \<and> inputSchema ([bare_tool, logging_tool ''t1'' ''r1''] ! 1) ''type'' = Some (JStr ''object'')
   \<and> input_schema (toAnthropicTools [bare_tool, logging_tool ''t1'' ''r1''] ! 1) ''type''
       = Some (JStr ''object'')"
proof -
  have h1: "(1::nat) < length [bare_tool, logging_tool ''t1'' ''r1'']"
    by simp
  have h2: "inputSchema ([bare_tool, logging_tool ''t1'' ''r1''] ! 1) ''type'' = Some (JStr ''object'')"
    by (simp add: logging_tool_def)
  from toAnthropicTools_translation [of "[bare_tool, logging_tool ''t1'' ''r1'']"] h1 h2
  show ?thesis
    by (simp add: bare_tool_def logging_tool_def)
qed

text \<open>The schema of the bash tool has a \<^verbatim>\<open>type\<close> key and is advertised as it is.\<close>

lemma bashTool_schema_unchanged:
  "map input_schema (toAnthropicTools [bashTool isWindows execFile]) =
     [inputSchema (bashTool isWindows execFile)]"
proof -
  have "[''type'' \<mapsto> JStr ''object''] ++ inputSchema (bashTool isWindows execFile) =
        inputSchema (bashTool isWindows execFile)"
    by (rule ext) (simp add: bashTool_def map_add_def)
  then show ?thesis
    by (simp add: toAnthropicTools_def)
qed

section \<open>The bash tool\<close>

lemma number_text_1: "number_text 1 = ''1''"
  by (simp add: number_text_def digits.simps digit_def)

lemma digits_127: "number_text 127 = ''127''"
  by (simp add: number_text_def digits.simps digit_def)





text \<open>Runs of the tool: a failed command, a timeout, a command that succeeds.\<close>

lemma bash_failure_run:
  "bashTool_execute False
     (exec_stub \<lparr> error = Some \<lparr> code = Some (CodeNumber 127) \<rparr>, stdout = [],
                   stderr = ''bash: nope: command not found'' @ [CHR 0x0A] \<rparr>)
     [''command'' \<mapsto> JStr ''nope''] []
   = (Inr (''bash: nope: command not found'' @ [CHR 0x0A, CHR 0x0A] @ ''[exit code 127]''), [''bash''])"
  by (simp add: bashTool_execute_def exec_stub_def has_nul_def execFile_callback_def code_text_def
        digits_127)

lemma bash_timeout_run:
  "bashTool_execute False
     (exec_stub \<lparr> error = Some \<lparr> code = None \<rparr>, stdout = ''partial'', stderr = [] \<rparr>)
     [''command'' \<mapsto> JStr ''sleep 60''] []
   = (Inr (''partial'' @ [CHR 0x0A] @ ''[exit code 1]''), [''bash''])"
  by (simp add: bashTool_execute_def exec_stub_def has_nul_def execFile_callback_def code_text_def
        number_text_1)

lemma bash_success_run:
  "bashTool_execute False
     (exec_stub \<lparr> error = None, stdout = ''hello'' @ [CHR 0x0A], stderr = [] \<rparr>)
     [''command'' \<mapsto> JStr ''echo hello''] []
   = (Inr ''hello'', [''bash''])"
  by (simp add: bashTool_execute_def exec_stub_def has_nul_def execFile_callback_def trimEnd_def
        is_white_space_def)

section \<open>Text of a Gmail message\<close>

text \<open>
  \<^verbatim>\<open>extractText\<close> is total: the termination proof above shows that every recursive
  call is on a member of \<open>parts\<close>, which is smaller than the payload. The cases
  of the repository's tests, with \<^verbatim>\<open>decodeBody\<close> the identity:
\<close>

lemma extractText_tests:
  "extractText id h (MessagePart (Some ''text/plain'') (Some ''plain text'') []) = ''plain text''"
  "extractText id h (MessagePart (Some ''text/html'') (Some ''<p>html content</p>'') [])
     = h ''<p>html content</p>''"
  "extractText id h
     (MessagePart (Some ''multipart/alternative'') None
        [MessagePart (Some ''text/plain'') (Some ''plain version'') [],
         MessagePart (Some ''text/html'') (Some ''<p>html version</p>'') []])
     = h ''<p>html version</p>''"
  "extractText id h
     (MessagePart (Some ''multipart/alternative'') None
        [MessagePart (Some ''text/plain'') (Some ''fallback plain'') []])
     = ''fallback plain''"
  "extractText id h
     (MessagePart (Some ''multipart/mixed'') None
        [MessagePart (Some ''text/plain'') (Some ''part one'') [],
         MessagePart (Some ''text/plain'') (Some ''part two'') []])
     = ''part one'' @ [CHR 0x0A, CHR 0x0A] @ ''part two''"
  "extractText id h
     (MessagePart (Some ''multipart/mixed'') None
        [MessagePart (Some ''multipart/alternative'') None
           [MessagePart (Some ''text/html'') (Some ''<p>nested html</p>'') []]])
     = h ''<p>nested html</p>''"
  "extractText id h (MessagePart (Some ''multipart/mixed'') None []) = []"
  by (simp_all add: is_html_with_data_def is_plain_with_data_def is_multipart_def data_of_def)

lemma find_None_iff': "find P xs = None \<longleftrightarrow> (\<forall>x\<in>set xs. \<not> P x)"
  by (induction xs) auto

lemma join_Nil_filter: "join sep (filter (\<lambda>t. t \<noteq> []) (map f xs)) = []" if "\<forall>x\<in>set xs. f x = []"
  using that by (induction xs) auto

text \<open>
  Claim C10: \<^verbatim>\<open>extractText\<close> terminates on every finite part tree and returns a
  string, and it returns the empty string when neither the payload nor any part below
  it is a \<^verbatim>\<open>text/plain\<close> or \<^verbatim>\<open>text/html\<close> leaf with data.
\<close>

theorem extractText_empty_without_text_leaf:
  "\<not> has_text_leaf payload \<Longrightarrow> extractText decodeBody htmlToText payload = []"
proof (induction decodeBody htmlToText payload rule: extractText.induct)
  case (1 decodeBody htmlToText mime data ps)
  from "1.prems" have leaf: "\<not> (truthy data \<and> (mime = Some ''text/plain'' \<or> mime = Some ''text/html''))"
    and sub: "\<forall>part\<in>set ps. \<not> has_text_leaf part"
    by auto
  show ?case
  proof (cases "ps = []")
    case True
    with leaf show ?thesis by auto
  next
    case False
    have all_empty: "\<forall>part\<in>set ps. extractText decodeBody htmlToText part = []"
      using "1.IH"(1) leaf False sub by auto
    have no_html: "find is_html_with_data (rev ps) = None"
      using sub by (auto simp: find_None_iff' is_html_with_data_def) (metis has_text_leaf.simps message_part.collapse)
    have no_plain: "find is_plain_with_data ps = None"
      using sub by (auto simp: find_None_iff' is_plain_with_data_def) (metis has_text_leaf.simps message_part.collapse)
    have no_nested: "find (\<lambda>t. t \<noteq> []) (map (extractText decodeBody htmlToText) (filter is_multipart (rev ps))) = None"
      using all_empty by (auto simp: find_None_iff')
    have sections: "join [CHR 0x0A, CHR 0x0A] (filter (\<lambda>t. t \<noteq> []) (map (extractText decodeBody htmlToText) ps)) = []"
      using all_empty by (rule join_Nil_filter)
    from leaf False no_html no_plain no_nested sections show ?thesis
      by (auto simp: Let_def)
  qed
qed

theorem extractText_empty_without_text_leaf_witness:
  "\<not> has_text_leaf attachment_only \<and> extractText id id attachment_only = []"
proof -
  have h: "\<not> has_text_leaf attachment_only"
    by (simp add: attachment_only_def)
  from extractText_empty_without_text_leaf [OF h, of id id] h show ?thesis
    by simp
qed

end
